theory Spec2Isabelle
  imports Main
begin

section \<open>Temporary voice channel controller\<close>

text \<open>
  The controller of \<^verbatim>\<open>tux/database/controllers/temporary_voice_channel.py\<close>
  keeps one row per temporary voice channel. Each of its five methods is a thin
  wrapper around the storage primitives of \<^verbatim>\<open>BaseController\<close>; the table is
  passed explicitly (the argument \<open>db\<close>) and every method that writes returns the
  table it leaves behind.
\<close>

subsection \<open>The entity and the table\<close>

text \<open>
  Python integers are unbounded, so identifiers are of type \<^typ>\<open>int\<close>. An instant
  is the number of microseconds since the epoch (the resolution of Python's
  \<^verbatim>\<open>datetime\<close>), in UTC. The ends of Python's calendar (the years 1 and 9999)
  are left out: the clock reads an instant far from both, so adding five
  minutes to it stays in range.
\<close>

type_synonym datetime = int

text \<open>
  Modelled from the spec: the entity class \<^verbatim>\<open>TemporaryVoiceChannel\<close> of
  \<^verbatim>\<open>tux.database.models\<close> is defined outside this module. Its four fields
  are those of the data model: the two halves of the composite identity, the
  owner, and the nullable instant at which the owner left.
\<close>

record TemporaryVoiceChannel =
  guild_id :: int
  voice_channel_id :: int
  owner_id :: int
  owner_left_time :: "datetime option"

text \<open>The table is the list of its rows, in storage order.\<close>

type_synonym store = "TemporaryVoiceChannel list"

text \<open>The composite primary key of a row.\<close>

definition primary_key :: "TemporaryVoiceChannel \<Rightarrow> int \<times> int" where
  "primary_key r = (guild_id r, voice_channel_id r)"

text \<open>At most one row per \<open>(guild_id, voice_channel_id)\<close> pair.\<close>

definition store_inv :: "store \<Rightarrow> bool" where
  "store_inv db = distinct (map primary_key db)"

text \<open>Failures of the storage layer reach the caller as they are.\<close>

datatype db_error = IntegrityError

subsection \<open>The storage primitives\<close>

text \<open>
  Modelled from the spec: \<^verbatim>\<open>BaseController.find_one\<close> is defined outside
  this module. It takes a filter over field equalities (here a predicate on rows)
  and answers one row that satisfies it, or nothing; this model answers the
  first such row in storage order. It does not write.
\<close>

definition find_one :: "store \<Rightarrow> (TemporaryVoiceChannel \<Rightarrow> bool) \<Rightarrow> TemporaryVoiceChannel option" where
  "find_one db filters = find filters db"

text \<open>
  Modelled from the spec: \<^verbatim>\<open>BaseController.create\<close> is defined outside this
  module. It builds a row from the three fields the controller passes, the
  left-time being null, and adds it to the table. The composite primary key is
  a constraint of the table: adding a second row under a key already present
  is a constraint violation, which propagates to the caller.
\<close>

definition create :: "store \<Rightarrow> int \<Rightarrow> int \<Rightarrow> int \<Rightarrow> db_error + (TemporaryVoiceChannel \<times> store)" where
  "create db gid cid oid =
     (let r = \<lparr>guild_id = gid, voice_channel_id = cid, owner_id = oid, owner_left_time = None\<rparr>
      in if (gid, cid) \<in> set (map primary_key db) then Inl IntegrityError
         else Inr (r, db @ [r]))"

text \<open>
  Assigning \<^verbatim>\<open>owner_left_time\<close> in the row stored under a primary key: a row
  under another key is left as it is.
\<close>

definition set_owner_left_time ::
  "int \<times> int \<Rightarrow> datetime option \<Rightarrow> TemporaryVoiceChannel \<Rightarrow> TemporaryVoiceChannel" where
  "set_owner_left_time record_id olt x =
     (if primary_key x = record_id then x\<lparr>owner_left_time := olt\<rparr> else x)"

text \<open>
  Modelled from the spec: \<^verbatim>\<open>BaseController.update_by_id\<close> is defined outside
  this module. It is keyed on the primary key; the only field the
  controller ever passes is \<^verbatim>\<open>owner_left_time\<close>, the third argument here. With no
  row under the key it answers nothing and writes nothing; otherwise it
  assigns the field in what is stored under the key and answers the updated
  row.
\<close>

definition update_by_id ::
  "store \<Rightarrow> int \<times> int \<Rightarrow> datetime option \<Rightarrow> TemporaryVoiceChannel option \<times> store" where
  "update_by_id db record_id olt =
     (case find (\<lambda>r. primary_key r = record_id) db of
        None \<Rightarrow> (None, db)
      | Some r \<Rightarrow>
          (Some (r\<lparr>owner_left_time := olt\<rparr>), map (set_owner_left_time record_id olt) db))"

text \<open>
  Modelled from the spec: \<^verbatim>\<open>BaseController.delete_by_id\<close> is defined outside
  this module. It is keyed on the primary key: with no row under the key it
  answers false and writes nothing; otherwise it removes what is stored under
  the key and answers true.
\<close>

definition delete_by_id :: "store \<Rightarrow> int \<times> int \<Rightarrow> bool \<times> store" where
  "delete_by_id db record_id =
     (if record_id \<in> set (map primary_key db)
      then (True, filter (\<lambda>r. primary_key r \<noteq> record_id) db)
      else (False, db))"

subsection \<open>The controller\<close>

text \<open>\<^verbatim>\<open>timedelta(minutes=m)\<close>, in microseconds.\<close>

definition timedelta_minutes :: "int \<Rightarrow> int" where
  "timedelta_minutes m = m * 60 * 1000000"

definition get_temporary_voice_channel_by_id ::
  "store \<Rightarrow> int \<Rightarrow> int \<Rightarrow> TemporaryVoiceChannel option" where
  "get_temporary_voice_channel_by_id db gid channel_id =
     find_one db (\<lambda>r. guild_id r = gid \<and> voice_channel_id r = channel_id)"

definition get_temporary_voice_channel_by_owner_id ::
  "store \<Rightarrow> int \<Rightarrow> TemporaryVoiceChannel option" where
  "get_temporary_voice_channel_by_owner_id db user_id =
     find_one db (\<lambda>r. owner_id r = user_id)"

definition get_or_create_temporary_voice_channel ::
  "store \<Rightarrow> int \<Rightarrow> int \<Rightarrow> int \<Rightarrow> db_error + (TemporaryVoiceChannel \<times> store)" where
  "get_or_create_temporary_voice_channel db gid cid oid =
     (case get_temporary_voice_channel_by_id db gid cid of
        Some temporary_voice_channel \<Rightarrow> Inr (temporary_voice_channel, db)
      | None \<Rightarrow> create db gid cid oid)"

definition delete_temporary_voice_channel :: "store \<Rightarrow> int \<Rightarrow> int \<Rightarrow> bool \<times> store" where
  "delete_temporary_voice_channel db gid channel_id =
     (case get_temporary_voice_channel_by_id db gid channel_id of
        None \<Rightarrow> (False, db)
      | Some voice_channel \<Rightarrow> delete_by_id db (gid, channel_id))"

text \<open>
  \<open>now\<close> is what \<^verbatim>\<open>datetime.now(UTC)\<close> reads when the method runs; it is
  read only on the branch that uses it.
\<close>

definition handle_owner_left_time ::
  "store \<Rightarrow> datetime \<Rightarrow> int \<Rightarrow> int \<Rightarrow> bool \<Rightarrow> TemporaryVoiceChannel option \<times> store" where
  "handle_owner_left_time db now gid channel_id owner_left =
     (if owner_left
      then update_by_id db (gid, channel_id) (Some (now + timedelta_minutes 5))
      else update_by_id db (gid, channel_id) None)"

subsection \<open>Calls of the controller\<close>

text \<open>
  A caller invokes one of the five methods. \<open>perform\<close> gives the table a call
  leaves behind: the two lookups only read, so they leave the table they
  found; the clock is read by \<^verbatim>\<open>handle_owner_left_time\<close> alone.
\<close>

datatype call =
    GetOrCreate int int int
  | GetById int int
  | GetByOwnerId int
  | Delete int int
  | SetOwnerLeft int int bool

fun perform :: "store \<Rightarrow> datetime \<times> call \<Rightarrow> db_error + store" where
  "perform db (now, GetOrCreate gid cid oid) =
     (case get_or_create_temporary_voice_channel db gid cid oid of
        Inl e \<Rightarrow> Inl e
      | Inr (r, db') \<Rightarrow> Inr db')"
| "perform db (now, GetById gid cid) =
     (case get_temporary_voice_channel_by_id db gid cid of r \<Rightarrow> Inr db)"
| "perform db (now, GetByOwnerId user_id) =
     (case get_temporary_voice_channel_by_owner_id db user_id of r \<Rightarrow> Inr db)"
| "perform db (now, Delete gid cid) =
     (case delete_temporary_voice_channel db gid cid of (deleted, db') \<Rightarrow> Inr db')"
| "perform db (now, SetOwnerLeft gid cid owner_left) =
     (case handle_owner_left_time db now gid cid owner_left of (r, db') \<Rightarrow> Inr db')"

text \<open>
  A history is a list of calls, each with the clock reading at its time; an
  unhandled storage failure ends it.
\<close>

fun perform_all :: "store \<Rightarrow> (datetime \<times> call) list \<Rightarrow> db_error + store" where
  "perform_all db [] = Inr db"
| "perform_all db (c # cs) =
     (case perform db c of
        Inl e \<Rightarrow> Inl e
      | Inr db' \<Rightarrow> perform_all db' cs)"

section \<open>Properties\<close>

subsection \<open>Lookup by composite key\<close>

lemma key_filter_eq:
  "(\<lambda>r. guild_id r = gid \<and> voice_channel_id r = cid) = (\<lambda>r. primary_key r = (gid, cid))"
  by (simp add: primary_key_def fun_eq_iff)

lemma get_by_id_find:
  "get_temporary_voice_channel_by_id db gid cid = find (\<lambda>r. primary_key r = (gid, cid)) db"
  by (simp add: get_temporary_voice_channel_by_id_def find_one_def key_filter_eq)

lemma get_by_id_None_iff:
  "get_temporary_voice_channel_by_id db gid cid = None \<longleftrightarrow> (gid, cid) \<notin> set (map primary_key db)"
  by (force simp: get_by_id_find find_None_iff)

lemma get_by_id_SomeD:
  "get_temporary_voice_channel_by_id db gid cid = Some r \<Longrightarrow> r \<in> set db \<and> primary_key r = (gid, cid)"
  by (auto simp: get_by_id_find find_Some_iff)

lemma get_by_id_Nil [simp]: "get_temporary_voice_channel_by_id [] gid cid = None"
  by (simp add: get_by_id_find)

lemma get_by_id_Cons:
  "get_temporary_voice_channel_by_id (x # db) gid cid =
     (if primary_key x = (gid, cid) then Some x else get_temporary_voice_channel_by_id db gid cid)"
  by (simp add: get_by_id_find)

lemma get_by_id_append:
  "get_temporary_voice_channel_by_id (db @ db') gid cid =
     (case get_temporary_voice_channel_by_id db gid cid of
        Some r \<Rightarrow> Some r
      | None \<Rightarrow> get_temporary_voice_channel_by_id db' gid cid)"
  by (induction db) (simp_all add: get_by_id_Cons)

lemma get_by_id_map_same_key:
  assumes "\<And>x. primary_key (f x) = primary_key x"
  shows "get_temporary_voice_channel_by_id (map f db) gid cid =
         map_option f (get_temporary_voice_channel_by_id db gid cid)"
  by (induction db) (simp_all add: get_by_id_Cons assms)

lemma get_by_id_filter:
  "get_temporary_voice_channel_by_id (filter (\<lambda>r. primary_key r \<noteq> k) db) gid cid =
     (if (gid, cid) = k then None else get_temporary_voice_channel_by_id db gid cid)"
  by (induction db) (auto simp: get_by_id_Cons)

subsection \<open>Get-or-create\<close>

lemma get_or_create_hit:
  "get_temporary_voice_channel_by_id db gid cid = Some r \<Longrightarrow>
   get_or_create_temporary_voice_channel db gid cid oid = Inr (r, db)"
  by (simp add: get_or_create_temporary_voice_channel_def)

lemma get_or_create_miss:
  assumes "get_temporary_voice_channel_by_id db gid cid = None"
  shows "get_or_create_temporary_voice_channel db gid cid oid =
     Inr (\<lparr>guild_id = gid, voice_channel_id = cid, owner_id = oid, owner_left_time = None\<rparr>,
          db @ [\<lparr>guild_id = gid, voice_channel_id = cid, owner_id = oid, owner_left_time = None\<rparr>])"
proof -
  from assms have "(gid, cid) \<notin> set (map primary_key db)"
    using get_by_id_None_iff by blast
  with assms show ?thesis
    by (simp add: get_or_create_temporary_voice_channel_def create_def Let_def)
qed

lemma get_by_id_after_create:
  assumes "get_temporary_voice_channel_by_id db gid cid = None"
  shows "get_temporary_voice_channel_by_id
           (db @ [\<lparr>guild_id = gid, voice_channel_id = cid, owner_id = oid, owner_left_time = olt\<rparr>]) gid cid
         = Some \<lparr>guild_id = gid, voice_channel_id = cid, owner_id = oid, owner_left_time = olt\<rparr>"
  using assms by (simp add: get_by_id_append get_by_id_Cons primary_key_def)

subsection \<open>Updating the left-time\<close>

lemma primary_key_set_owner_left_time [simp]: "primary_key (set_owner_left_time k olt x) = primary_key x"
  by (simp add: set_owner_left_time_def primary_key_def)

lemma set_owner_left_time_fields:
  "guild_id (set_owner_left_time k olt x) = guild_id x"
  "voice_channel_id (set_owner_left_time k olt x) = voice_channel_id x"
  "owner_id (set_owner_left_time k olt x) = owner_id x"
  "primary_key x \<noteq> k \<Longrightarrow> set_owner_left_time k olt x = x"
  by (simp_all add: set_owner_left_time_def)

lemma map_set_owner_left_time_absent:
  "k \<notin> set (map primary_key db) \<Longrightarrow> map (set_owner_left_time k olt) db = db"
  by (induction db) (auto simp: set_owner_left_time_def)

lemma get_by_id_set_owner_left_time:
  "get_temporary_voice_channel_by_id (map (set_owner_left_time k olt) db) gid cid =
     map_option (set_owner_left_time k olt) (get_temporary_voice_channel_by_id db gid cid)"
  by (rule get_by_id_map_same_key) simp

lemma get_by_id_set_owner_left_time_other:
  assumes "(g, c) \<noteq> k"
  shows "get_temporary_voice_channel_by_id (map (set_owner_left_time k olt) db) g c =
         get_temporary_voice_channel_by_id db g c"
proof (cases "get_temporary_voice_channel_by_id db g c")
  case None
  then show ?thesis by (simp add: get_by_id_set_owner_left_time)
next
  case (Some r)
  from get_by_id_SomeD [OF Some] assms have "set_owner_left_time k olt r = r"
    by (simp add: set_owner_left_time_def)
  with Some show ?thesis by (simp add: get_by_id_set_owner_left_time)
qed

lemma get_by_id_after_set_owner_left_time:
  "get_temporary_voice_channel_by_id db gid cid = Some r \<Longrightarrow>
   get_temporary_voice_channel_by_id (map (set_owner_left_time (gid, cid) olt) db) gid cid =
     Some (r\<lparr>owner_left_time := olt\<rparr>)"
  by (frule get_by_id_SomeD) (simp add: get_by_id_set_owner_left_time set_owner_left_time_def)

lemma update_by_id_miss:
  "get_temporary_voice_channel_by_id db gid cid = None \<Longrightarrow>
   update_by_id db (gid, cid) olt = (None, db)"
  by (simp add: update_by_id_def get_by_id_find)

lemma update_by_id_hit:
  "get_temporary_voice_channel_by_id db gid cid = Some r \<Longrightarrow>
   update_by_id db (gid, cid) olt =
     (Some (r\<lparr>owner_left_time := olt\<rparr>), map (set_owner_left_time (gid, cid) olt) db)"
  by (simp add: update_by_id_def get_by_id_find set_owner_left_time_def)

lemma handle_miss:
  "get_temporary_voice_channel_by_id db gid cid = None \<Longrightarrow>
   handle_owner_left_time db now gid cid owner_left = (None, db)"
  by (simp add: handle_owner_left_time_def update_by_id_miss)

lemma handle_hit_True:
  "get_temporary_voice_channel_by_id db gid cid = Some r \<Longrightarrow>
   handle_owner_left_time db now gid cid True =
     (Some (r\<lparr>owner_left_time := Some (now + 300000000)\<rparr>),
      map (set_owner_left_time (gid, cid) (Some (now + 300000000))) db)"
  by (simp add: handle_owner_left_time_def update_by_id_hit timedelta_minutes_def)

lemma handle_hit_False:
  "get_temporary_voice_channel_by_id db gid cid = Some r \<Longrightarrow>
   handle_owner_left_time db now gid cid False =
     (Some (r\<lparr>owner_left_time := None\<rparr>), map (set_owner_left_time (gid, cid) None) db)"
  by (simp add: handle_owner_left_time_def update_by_id_hit)

lemma handle_store:
  "\<exists>olt. snd (handle_owner_left_time db now gid cid owner_left) = map (set_owner_left_time (gid, cid) olt) db"
proof (cases "get_temporary_voice_channel_by_id db gid cid")
  case None
  then have "(gid, cid) \<notin> set (map primary_key db)"
    using get_by_id_None_iff by blast
  then have "map (set_owner_left_time (gid, cid) None) db = db"
    by (rule map_set_owner_left_time_absent)
  with None show ?thesis
    by (metis handle_miss snd_conv)
next
  case (Some r)
  then show ?thesis
    by (cases owner_left) (auto simp: handle_hit_True handle_hit_False)
qed

subsection \<open>The invariant, call by call\<close>

lemma store_inv_append:
  "store_inv db \<Longrightarrow> primary_key r \<notin> set (map primary_key db) \<Longrightarrow> store_inv (db @ [r])"
  by (simp add: store_inv_def)

lemma store_inv_filter: "store_inv db \<Longrightarrow> store_inv (filter P db)"
  by (simp add: store_inv_def distinct_map_filter)

lemma store_inv_set_owner_left_time: "store_inv (map (set_owner_left_time k olt) db) = store_inv db"
  by (simp add: store_inv_def comp_def)

lemma get_or_create_total:
  "\<exists>r db'. get_or_create_temporary_voice_channel db gid cid oid = Inr (r, db') \<and>
           (store_inv db \<longrightarrow> store_inv db') \<and>
           set (map primary_key db') \<subseteq> insert (gid, cid) (set (map primary_key db))"
proof (cases "get_temporary_voice_channel_by_id db gid cid")
  case None
  let ?r = "\<lparr>guild_id = gid, voice_channel_id = cid, owner_id = oid, owner_left_time = None\<rparr>"
  from None have "primary_key ?r \<notin> set (map primary_key db)"
    using get_by_id_None_iff [of db gid cid] by (simp add: primary_key_def)
  then have "store_inv db \<longrightarrow> store_inv (db @ [?r])"
    by (simp add: store_inv_append)
  moreover have "set (map primary_key (db @ [?r])) \<subseteq> insert (gid, cid) (set (map primary_key db))"
    by (auto simp: primary_key_def)
  ultimately show ?thesis
    using get_or_create_miss [OF None, of oid] by blast
next
  case (Some r)
  then show ?thesis
    by (auto simp: get_or_create_hit)
qed

lemma delete_store:
  "snd (delete_temporary_voice_channel db gid cid) = db \<or>
   snd (delete_temporary_voice_channel db gid cid) = filter (\<lambda>r. primary_key r \<noteq> (gid, cid)) db"
  by (simp add: delete_temporary_voice_channel_def delete_by_id_def split: option.split)

lemma perform_total:
  "\<exists>db'. perform db (now, c) = Inr db' \<and> (store_inv db \<longrightarrow> store_inv db') \<and>
         set (map primary_key db') \<subseteq>
           set (map primary_key db) \<union> (case c of GetOrCreate g ch ow \<Rightarrow> {(g, ch)} | _ \<Rightarrow> {})"
proof (cases c)
  case (GetOrCreate gid cid oid)
  from get_or_create_total [of db gid cid oid] obtain r db'
    where "get_or_create_temporary_voice_channel db gid cid oid = Inr (r, db')"
      and "store_inv db \<longrightarrow> store_inv db'"
      and "set (map primary_key db') \<subseteq> insert (gid, cid) (set (map primary_key db))"
    by blast
  with GetOrCreate show ?thesis by auto
next
  case (GetById gid cid)
  then show ?thesis by simp
next
  case (GetByOwnerId user_id)
  then show ?thesis by simp
next
  case (Delete gid cid)
  obtain b db' where d: "delete_temporary_voice_channel db gid cid = (b, db')"
    by (cases "delete_temporary_voice_channel db gid cid")
  with delete_store [of db gid cid]
  have "db' = db \<or> db' = filter (\<lambda>r. primary_key r \<noteq> (gid, cid)) db"
    by simp
  then have "(store_inv db \<longrightarrow> store_inv db') \<and> set (map primary_key db') \<subseteq> set (map primary_key db)"
    by (auto simp: store_inv_filter)
  with Delete d show ?thesis by simp
next
  case (SetOwnerLeft gid cid owner_left)
  obtain res db' where h: "handle_owner_left_time db now gid cid owner_left = (res, db')"
    by (cases "handle_owner_left_time db now gid cid owner_left")
  with handle_store [of db now gid cid owner_left]
  obtain olt where "db' = map (set_owner_left_time (gid, cid) olt) db"
    by auto
  then have "(store_inv db \<longrightarrow> store_inv db') \<and> set (map primary_key db') \<subseteq> set (map primary_key db)"
    by (simp add: store_inv_set_owner_left_time image_image)
  with SetOwnerLeft h show ?thesis by simp
qed

lemma perform_all_total:
  "\<exists>db'. perform_all db cs = Inr db' \<and> (store_inv db \<longrightarrow> store_inv db') \<and>
         (\<forall>g ch. (g, ch) \<in> set (map primary_key db') \<longrightarrow>
            (g, ch) \<in> set (map primary_key db) \<or> (\<exists>now ow. (now, GetOrCreate g ch ow) \<in> set cs))"
proof (induction cs arbitrary: db)
  case Nil
  show ?case by simp
next
  case (Cons c cs)
  obtain now cl where c: "c = (now, cl)" by (cases c)
  from perform_total [of db now cl] obtain db1
    where p: "perform db (now, cl) = Inr db1"
      and i: "store_inv db \<longrightarrow> store_inv db1"
      and k: "set (map primary_key db1) \<subseteq>
           set (map primary_key db) \<union> (case cl of GetOrCreate g ch ow \<Rightarrow> {(g, ch)} | _ \<Rightarrow> {})"
    by blast
  from Cons.IH [of db1] obtain db2
    where p2: "perform_all db1 cs = Inr db2"
      and i2: "store_inv db1 \<longrightarrow> store_inv db2"
      and k2: "\<forall>g ch. (g, ch) \<in> set (map primary_key db2) \<longrightarrow>
            (g, ch) \<in> set (map primary_key db1) \<or> (\<exists>now ow. (now, GetOrCreate g ch ow) \<in> set cs)"
    by blast
  have k1: "(g, ch) \<in> set (map primary_key db1) \<Longrightarrow>
      (g, ch) \<in> set (map primary_key db) \<or> (\<exists>ow. cl = GetOrCreate g ch ow)" for g ch
    using k by (cases cl) auto
  have "\<forall>g ch. (g, ch) \<in> set (map primary_key db2) \<longrightarrow>
            (g, ch) \<in> set (map primary_key db) \<or> (\<exists>now ow. (now, GetOrCreate g ch ow) \<in> set (c # cs))"
  proof (intro allI impI)
    fix g ch
    assume "(g, ch) \<in> set (map primary_key db2)"
    with k2 consider "(g, ch) \<in> set (map primary_key db1)"
      | "\<exists>now ow. (now, GetOrCreate g ch ow) \<in> set cs"
      by blast
    then show "(g, ch) \<in> set (map primary_key db) \<or>
        (\<exists>now ow. (now, GetOrCreate g ch ow) \<in> set (c # cs))"
    proof cases
      case 1
      from k1 [OF 1] show ?thesis
        using c by auto
    next
      case 2
      then show ?thesis by auto
    qed
  qed
  with p p2 i i2 c show ?case by simp
qed

subsection \<open>Evaluation on concrete tables\<close>

lemmas eval_defs =
  store_inv_def primary_key_def set_owner_left_time_def find_one_def create_def update_by_id_def delete_by_id_def
  timedelta_minutes_def get_temporary_voice_channel_by_id_def
  get_temporary_voice_channel_by_owner_id_def get_or_create_temporary_voice_channel_def
  delete_temporary_voice_channel_def handle_owner_left_time_def Let_def

section \<open>The contract of the controller\<close>

text \<open>
  C1. Where a row exists under \<open>(guild_id, voice_channel_id)\<close>,
  \<^verbatim>\<open>get_or_create_temporary_voice_channel\<close> answers that row as it is and leaves
  the table as it is, whatever \<open>owner_id\<close> it is given. Two calls in a row under
  the same key, with any two owners, both succeed, answer the same row, and the
  second writes nothing; where the first call had to create the row, its owner
  is the first call's.
\<close>

theorem get_or_create_idempotent:
  "(get_temporary_voice_channel_by_id db gid cid = Some r \<longrightarrow>
      get_or_create_temporary_voice_channel db gid cid oid = Inr (r, db)) \<and>
   (\<exists>r1 db1.
      get_or_create_temporary_voice_channel db gid cid oid1 = Inr (r1, db1) \<and>
      get_or_create_temporary_voice_channel db1 gid cid oid2 = Inr (r1, db1) \<and>
      (get_temporary_voice_channel_by_id db gid cid = None \<longrightarrow> owner_id r1 = oid1))"
proof (intro conjI impI)
  assume "get_temporary_voice_channel_by_id db gid cid = Some r"
  then show "get_or_create_temporary_voice_channel db gid cid oid = Inr (r, db)"
    by (rule get_or_create_hit)
next
  show "\<exists>r1 db1.
      get_or_create_temporary_voice_channel db gid cid oid1 = Inr (r1, db1) \<and>
      get_or_create_temporary_voice_channel db1 gid cid oid2 = Inr (r1, db1) \<and>
      (get_temporary_voice_channel_by_id db gid cid = None \<longrightarrow> owner_id r1 = oid1)"
  proof (cases "get_temporary_voice_channel_by_id db gid cid")
    case (Some r0)
    then show ?thesis by (simp add: get_or_create_hit)
  next
    case None
    let ?r = "\<lparr>guild_id = gid, voice_channel_id = cid, owner_id = oid1, owner_left_time = None\<rparr>"
    have first: "get_or_create_temporary_voice_channel db gid cid oid1 = Inr (?r, db @ [?r])"
      using None by (rule get_or_create_miss)
    have "get_temporary_voice_channel_by_id (db @ [?r]) gid cid = Some ?r"
      using None by (rule get_by_id_after_create)
    then have "get_or_create_temporary_voice_channel (db @ [?r]) gid cid oid2 = Inr (?r, db @ [?r])"
      by (rule get_or_create_hit)
    with first show ?thesis by simp
  qed
qed

theorem get_or_create_idempotent_witness:
  "get_temporary_voice_channel_by_id
     [\<lparr>guild_id = 1, voice_channel_id = 100, owner_id = 42, owner_left_time = None\<rparr>] 1 100
     = Some \<lparr>guild_id = 1, voice_channel_id = 100, owner_id = 42, owner_left_time = None\<rparr> \<and>
   get_or_create_temporary_voice_channel
     [\<lparr>guild_id = 1, voice_channel_id = 100, owner_id = 42, owner_left_time = None\<rparr>] 1 100 7
     = Inr (\<lparr>guild_id = 1, voice_channel_id = 100, owner_id = 42, owner_left_time = None\<rparr>,
            [\<lparr>guild_id = 1, voice_channel_id = 100, owner_id = 42, owner_left_time = None\<rparr>]) \<and>
   get_temporary_voice_channel_by_id [] 1 100 = None \<and>
   (\<exists>r1 db1.
      get_or_create_temporary_voice_channel [] 1 100 42 = Inr (r1, db1) \<and>
      get_or_create_temporary_voice_channel db1 1 100 7 = Inr (r1, db1) \<and>
      owner_id r1 = 42)"
  using get_or_create_idempotent
      [of "[\<lparr>guild_id = 1, voice_channel_id = 100, owner_id = 42, owner_left_time = None\<rparr>]" 1 100
          "\<lparr>guild_id = 1, voice_channel_id = 100, owner_id = 42, owner_left_time = None\<rparr>" 7 7 7]
    get_or_create_idempotent [of "[]" 1 100 undefined 0 42 7]
  by (simp add: get_by_id_Cons primary_key_def)

text \<open>
  C2. At most one row per \<open>(guild_id, voice_channel_id)\<close> pair is an invariant of
  the controller: from a table that satisfies it, every call of each of the
  five methods succeeds and leaves a table that satisfies it, and so does every
  history of calls.
\<close>

theorem store_inv_preserved:
  assumes "store_inv db"
  shows "(\<exists>db'. perform db (now, c) = Inr db' \<and> store_inv db') \<and>
         (\<exists>db'. perform_all db cs = Inr db' \<and> store_inv db')"
  using assms perform_total [of db now c] perform_all_total [of db cs]
  by blast

theorem store_inv_preserved_witness:
  "store_inv [\<lparr>guild_id = 1, voice_channel_id = 100, owner_id = 42, owner_left_time = None\<rparr>] \<and>
   perform [\<lparr>guild_id = 1, voice_channel_id = 100, owner_id = 42, owner_left_time = None\<rparr>]
       (0, GetOrCreate 1 200 7)
     = Inr [\<lparr>guild_id = 1, voice_channel_id = 100, owner_id = 42, owner_left_time = None\<rparr>,
            \<lparr>guild_id = 1, voice_channel_id = 200, owner_id = 7, owner_left_time = None\<rparr>] \<and>
   store_inv [\<lparr>guild_id = 1, voice_channel_id = 100, owner_id = 42, owner_left_time = None\<rparr>,
              \<lparr>guild_id = 1, voice_channel_id = 200, owner_id = 7, owner_left_time = None\<rparr>] \<and>
   perform_all [\<lparr>guild_id = 1, voice_channel_id = 100, owner_id = 42, owner_left_time = None\<rparr>]
       [(0, GetOrCreate 1 100 9), (5, SetOwnerLeft 1 100 True), (6, GetById 1 100),
        (7, GetByOwnerId 42), (8, Delete 1 100), (9, GetOrCreate 1 100 9)]
     = Inr [\<lparr>guild_id = 1, voice_channel_id = 100, owner_id = 9, owner_left_time = None\<rparr>] \<and>
   store_inv [\<lparr>guild_id = 1, voice_channel_id = 100, owner_id = 9, owner_left_time = None\<rparr>]"
  using store_inv_preserved
      [of "[\<lparr>guild_id = 1, voice_channel_id = 100, owner_id = 42, owner_left_time = None\<rparr>]"
          0 "GetOrCreate 1 200 7"
          "[(0, GetOrCreate 1 100 9), (5, SetOwnerLeft 1 100 True), (6, GetById 1 100),
            (7, GetByOwnerId 42), (8, Delete 1 100), (9, GetOrCreate 1 100 9)]"]
  by (simp add: eval_defs)

text \<open>
  C3. \<^verbatim>\<open>delete_temporary_voice_channel\<close> answers false and leaves the table as it
  is when the lookup under the key finds nothing; when the lookup finds a row it
  answers true, and the lookup under the key in the table it leaves finds
  nothing.
\<close>

theorem delete_result:
  "(get_temporary_voice_channel_by_id db gid cid = None \<longrightarrow>
      delete_temporary_voice_channel db gid cid = (False, db)) \<and>
   (get_temporary_voice_channel_by_id db gid cid = Some r \<longrightarrow>
      (\<exists>db'. delete_temporary_voice_channel db gid cid = (True, db') \<and>
             get_temporary_voice_channel_by_id db' gid cid = None))"
proof (intro conjI impI)
  assume "get_temporary_voice_channel_by_id db gid cid = None"
  then show "delete_temporary_voice_channel db gid cid = (False, db)"
    by (simp add: delete_temporary_voice_channel_def)
next
  assume hit: "get_temporary_voice_channel_by_id db gid cid = Some r"
  then have "(gid, cid) \<in> set (map primary_key db)"
    using get_by_id_None_iff [of db gid cid] by simp
  with hit have "delete_temporary_voice_channel db gid cid =
      (True, filter (\<lambda>x. primary_key x \<noteq> (gid, cid)) db)"
    by (simp add: delete_temporary_voice_channel_def delete_by_id_def)
  then show "\<exists>db'. delete_temporary_voice_channel db gid cid = (True, db') \<and>
             get_temporary_voice_channel_by_id db' gid cid = None"
    by (simp add: get_by_id_filter)
qed

theorem delete_result_witness:
  "get_temporary_voice_channel_by_id
     [\<lparr>guild_id = 1, voice_channel_id = 100, owner_id = 42, owner_left_time = None\<rparr>] 2 100 = None \<and>
   delete_temporary_voice_channel
     [\<lparr>guild_id = 1, voice_channel_id = 100, owner_id = 42, owner_left_time = None\<rparr>] 2 100
     = (False, [\<lparr>guild_id = 1, voice_channel_id = 100, owner_id = 42, owner_left_time = None\<rparr>]) \<and>
   get_temporary_voice_channel_by_id
     [\<lparr>guild_id = 1, voice_channel_id = 100, owner_id = 42, owner_left_time = None\<rparr>] 1 100
     = Some \<lparr>guild_id = 1, voice_channel_id = 100, owner_id = 42, owner_left_time = None\<rparr> \<and>
   delete_temporary_voice_channel
     [\<lparr>guild_id = 1, voice_channel_id = 100, owner_id = 42, owner_left_time = None\<rparr>] 1 100
     = (True, []) \<and>
   get_temporary_voice_channel_by_id [] 1 100 = None"
  using delete_result
      [of "[\<lparr>guild_id = 1, voice_channel_id = 100, owner_id = 42, owner_left_time = None\<rparr>]" 2 100
          "\<lparr>guild_id = 1, voice_channel_id = 100, owner_id = 42, owner_left_time = None\<rparr>"]
    delete_result
      [of "[\<lparr>guild_id = 1, voice_channel_id = 100, owner_id = 42, owner_left_time = None\<rparr>]" 1 100
          "\<lparr>guild_id = 1, voice_channel_id = 100, owner_id = 42, owner_left_time = None\<rparr>"]
  by (simp add: eval_defs)

text \<open>
  C4. Where the lookup under \<open>(guild_id, channel_id)\<close> finds a row,
  \<^verbatim>\<open>handle_owner_left_time\<close> with \<open>owner_left\<close> true answers that row with
  \<open>owner_left_time\<close> set to the clock reading plus five minutes (300000000
  microseconds), and that updated row is what the lookup finds afterwards.
\<close>

theorem owner_left_sets_deadline:
  assumes "get_temporary_voice_channel_by_id db gid cid = Some r"
  shows "\<exists>db'. handle_owner_left_time db now gid cid True =
            (Some (r\<lparr>owner_left_time := Some (now + 5 * 60 * 1000000)\<rparr>), db') \<and>
          get_temporary_voice_channel_by_id db' gid cid =
            Some (r\<lparr>owner_left_time := Some (now + 5 * 60 * 1000000)\<rparr>)"
  using handle_hit_True [OF assms, of now] get_by_id_after_set_owner_left_time [OF assms]
  by simp

theorem owner_left_sets_deadline_witness:
  "get_temporary_voice_channel_by_id
     [\<lparr>guild_id = 1, voice_channel_id = 100, owner_id = 42, owner_left_time = None\<rparr>] 1 100
     = Some \<lparr>guild_id = 1, voice_channel_id = 100, owner_id = 42, owner_left_time = None\<rparr> \<and>
   handle_owner_left_time
     [\<lparr>guild_id = 1, voice_channel_id = 100, owner_id = 42, owner_left_time = None\<rparr>]
     1000 1 100 True
     = (Some \<lparr>guild_id = 1, voice_channel_id = 100, owner_id = 42,
              owner_left_time = Some 300001000\<rparr>,
        [\<lparr>guild_id = 1, voice_channel_id = 100, owner_id = 42,
           owner_left_time = Some 300001000\<rparr>])"
  using owner_left_sets_deadline
      [of "[\<lparr>guild_id = 1, voice_channel_id = 100, owner_id = 42, owner_left_time = None\<rparr>]" 1 100
          "\<lparr>guild_id = 1, voice_channel_id = 100, owner_id = 42, owner_left_time = None\<rparr>" 1000]
  by (simp add: eval_defs)

text \<open>
  C5. Where the lookup under \<open>(guild_id, channel_id)\<close> finds nothing,
  \<^verbatim>\<open>handle_owner_left_time\<close> answers nothing and leaves the table as it is, for
  either value of \<open>owner_left\<close>: no row is created.
\<close>

theorem owner_left_missing_key:
  "get_temporary_voice_channel_by_id db gid cid = None \<Longrightarrow>
   handle_owner_left_time db now gid cid owner_left = (None, db)"
  by (rule handle_miss)

theorem owner_left_missing_key_witness:
  "get_temporary_voice_channel_by_id
     [\<lparr>guild_id = 1, voice_channel_id = 100, owner_id = 42, owner_left_time = None\<rparr>] 1 101 = None \<and>
   handle_owner_left_time
     [\<lparr>guild_id = 1, voice_channel_id = 100, owner_id = 42, owner_left_time = None\<rparr>]
     1000 1 101 True
     = (None, [\<lparr>guild_id = 1, voice_channel_id = 100, owner_id = 42, owner_left_time = None\<rparr>]) \<and>
   handle_owner_left_time [] 1000 1 101 False = (None, [])"
  using owner_left_missing_key
      [of "[\<lparr>guild_id = 1, voice_channel_id = 100, owner_id = 42, owner_left_time = None\<rparr>]"
          1 101 1000 True]
    owner_left_missing_key [of "[]" 1 101 1000 False]
  by (simp add: eval_defs)

text \<open>
  C6. Where the lookup under \<open>(guild_id, voice_channel_id)\<close> finds nothing,
  \<^verbatim>\<open>get_or_create_temporary_voice_channel\<close> succeeds, adds one row to the table
  and answers it: its three identifiers are the arguments, its
  \<open>owner_left_time\<close> is null, and it is what the lookup finds afterwards.
\<close>

theorem get_or_create_creates:
  assumes "get_temporary_voice_channel_by_id db gid cid = None"
  shows "\<exists>r. get_or_create_temporary_voice_channel db gid cid oid = Inr (r, db @ [r]) \<and>
             guild_id r = gid \<and> voice_channel_id r = cid \<and> owner_id r = oid \<and>
             owner_left_time r = None \<and>
             get_temporary_voice_channel_by_id (db @ [r]) gid cid = Some r"
  using get_or_create_miss [OF assms, of oid] get_by_id_after_create [OF assms, of oid None]
  by simp

theorem get_or_create_creates_witness:
  "get_temporary_voice_channel_by_id
     [\<lparr>guild_id = 1, voice_channel_id = 100, owner_id = 42, owner_left_time = Some 5\<rparr>] 1 101 = None \<and>
   get_or_create_temporary_voice_channel
     [\<lparr>guild_id = 1, voice_channel_id = 100, owner_id = 42, owner_left_time = Some 5\<rparr>] 1 101 42
     = Inr (\<lparr>guild_id = 1, voice_channel_id = 101, owner_id = 42, owner_left_time = None\<rparr>,
            [\<lparr>guild_id = 1, voice_channel_id = 100, owner_id = 42, owner_left_time = Some 5\<rparr>,
             \<lparr>guild_id = 1, voice_channel_id = 101, owner_id = 42, owner_left_time = None\<rparr>])"
  using get_or_create_creates
      [of "[\<lparr>guild_id = 1, voice_channel_id = 100, owner_id = 42, owner_left_time = Some 5\<rparr>]"
          1 101 42]
  by (simp add: eval_defs)

text \<open>
  C7. Where the lookup under \<open>(guild_id, channel_id)\<close> finds a row,
  \<^verbatim>\<open>handle_owner_left_time\<close> with \<open>owner_left\<close> false answers that row with
  \<open>owner_left_time\<close> null, and that is what the lookup finds afterwards. Called
  right after a call with \<open>owner_left\<close> true (which leaves a non-null
  \<open>owner_left_time\<close>), it brings \<open>owner_left_time\<close> back to null.
\<close>

theorem owner_back_clears_deadline:
  assumes "get_temporary_voice_channel_by_id db gid cid = Some r"
  shows "(\<exists>db'. handle_owner_left_time db now gid cid False =
             (Some (r\<lparr>owner_left_time := None\<rparr>), db') \<and>
           get_temporary_voice_channel_by_id db' gid cid = Some (r\<lparr>owner_left_time := None\<rparr>)) \<and>
         (\<exists>r1 db1 db2.
             handle_owner_left_time db now gid cid True = (Some r1, db1) \<and>
             owner_left_time r1 \<noteq> None \<and>
             handle_owner_left_time db1 now' gid cid False =
               (Some (r\<lparr>owner_left_time := None\<rparr>), db2) \<and>
             get_temporary_voice_channel_by_id db2 gid cid = Some (r\<lparr>owner_left_time := None\<rparr>))"
proof
  show "\<exists>db'. handle_owner_left_time db now gid cid False =
             (Some (r\<lparr>owner_left_time := None\<rparr>), db') \<and>
           get_temporary_voice_channel_by_id db' gid cid = Some (r\<lparr>owner_left_time := None\<rparr>)"
    using handle_hit_False [OF assms, of now] get_by_id_after_set_owner_left_time [OF assms]
    by simp
next
  let ?r1 = "r\<lparr>owner_left_time := Some (now + 300000000)\<rparr>"
  let ?db1 = "map (set_owner_left_time (gid, cid) (Some (now + 300000000))) db"
  have one: "handle_owner_left_time db now gid cid True = (Some ?r1, ?db1)"
    using assms by (rule handle_hit_True)
  have at1: "get_temporary_voice_channel_by_id ?db1 gid cid = Some ?r1"
    using assms by (rule get_by_id_after_set_owner_left_time)
  have two: "handle_owner_left_time ?db1 now' gid cid False =
      (Some (r\<lparr>owner_left_time := None\<rparr>), map (set_owner_left_time (gid, cid) None) ?db1)"
    using handle_hit_False [OF at1, of now'] by simp
  have at2: "get_temporary_voice_channel_by_id (map (set_owner_left_time (gid, cid) None) ?db1) gid cid =
      Some (r\<lparr>owner_left_time := None\<rparr>)"
    using get_by_id_after_set_owner_left_time [OF at1, of None] by simp
  from one two at2 show "\<exists>r1 db1 db2.
             handle_owner_left_time db now gid cid True = (Some r1, db1) \<and>
             owner_left_time r1 \<noteq> None \<and>
             handle_owner_left_time db1 now' gid cid False =
               (Some (r\<lparr>owner_left_time := None\<rparr>), db2) \<and>
             get_temporary_voice_channel_by_id db2 gid cid = Some (r\<lparr>owner_left_time := None\<rparr>)"
    by simp
qed

theorem owner_back_clears_deadline_witness:
  "get_temporary_voice_channel_by_id
     [\<lparr>guild_id = 1, voice_channel_id = 100, owner_id = 42, owner_left_time = Some 5\<rparr>] 1 100
     = Some \<lparr>guild_id = 1, voice_channel_id = 100, owner_id = 42, owner_left_time = Some 5\<rparr> \<and>
   handle_owner_left_time
     [\<lparr>guild_id = 1, voice_channel_id = 100, owner_id = 42, owner_left_time = Some 5\<rparr>]
     1000 1 100 False
     = (Some \<lparr>guild_id = 1, voice_channel_id = 100, owner_id = 42, owner_left_time = None\<rparr>,
        [\<lparr>guild_id = 1, voice_channel_id = 100, owner_id = 42, owner_left_time = None\<rparr>]) \<and>
   handle_owner_left_time
     (snd (handle_owner_left_time
        [\<lparr>guild_id = 1, voice_channel_id = 100, owner_id = 42, owner_left_time = Some 5\<rparr>]
        1000 1 100 True))
     1001 1 100 False
     = (Some \<lparr>guild_id = 1, voice_channel_id = 100, owner_id = 42, owner_left_time = None\<rparr>,
        [\<lparr>guild_id = 1, voice_channel_id = 100, owner_id = 42, owner_left_time = None\<rparr>])"
  using owner_back_clears_deadline
      [of "[\<lparr>guild_id = 1, voice_channel_id = 100, owner_id = 42, owner_left_time = Some 5\<rparr>]"
          1 100
          "\<lparr>guild_id = 1, voice_channel_id = 100, owner_id = 42, owner_left_time = Some 5\<rparr>"
          1000 1001]
  by (simp add: eval_defs)

text \<open>
  C8. \<^verbatim>\<open>get_temporary_voice_channel_by_id\<close> is an exact lookup by composite key.
  It answers nothing when the table has no row under the pair, and in
  particular after any history, from the empty table, that holds no
  get-or-create call for the pair. When the table has a row under the pair it
  answers a row of the table under that pair; in a table with at most one row
  per pair, that row.
\<close>

theorem get_by_id_exact:
  "((gid, cid) \<notin> set (map primary_key db) \<longrightarrow>
      get_temporary_voice_channel_by_id db gid cid = None) \<and>
   (perform_all [] cs = Inr db \<and> (\<forall>now oid. (now, GetOrCreate gid cid oid) \<notin> set cs) \<longrightarrow>
      get_temporary_voice_channel_by_id db gid cid = None) \<and>
   (r \<in> set db \<and> guild_id r = gid \<and> voice_channel_id r = cid \<longrightarrow>
      (\<exists>r'. get_temporary_voice_channel_by_id db gid cid = Some r' \<and> r' \<in> set db \<and>
            guild_id r' = gid \<and> voice_channel_id r' = cid)) \<and>
   (store_inv db \<and> r \<in> set db \<and> guild_id r = gid \<and> voice_channel_id r = cid \<longrightarrow>
      get_temporary_voice_channel_by_id db gid cid = Some r)"
proof (intro conjI impI)
  assume "(gid, cid) \<notin> set (map primary_key db)"
  then show "get_temporary_voice_channel_by_id db gid cid = None"
    using get_by_id_None_iff by blast
next
  assume h: "perform_all [] cs = Inr db \<and> (\<forall>now oid. (now, GetOrCreate gid cid oid) \<notin> set cs)"
  with perform_all_total [of "[]" cs] have "(gid, cid) \<notin> set (map primary_key db)"
    by auto
  then show "get_temporary_voice_channel_by_id db gid cid = None"
    using get_by_id_None_iff by blast
next
  assume h: "r \<in> set db \<and> guild_id r = gid \<and> voice_channel_id r = cid"
  then have "(gid, cid) \<in> set (map primary_key db)"
    by (force simp: primary_key_def)
  then obtain r' where r': "get_temporary_voice_channel_by_id db gid cid = Some r'"
    using get_by_id_None_iff [of db gid cid] by fastforce
  from get_by_id_SomeD [OF r'] r'
  show "\<exists>r'. get_temporary_voice_channel_by_id db gid cid = Some r' \<and> r' \<in> set db \<and>
            guild_id r' = gid \<and> voice_channel_id r' = cid"
    by (simp add: primary_key_def)
next
  assume h: "store_inv db \<and> r \<in> set db \<and> guild_id r = gid \<and> voice_channel_id r = cid"
  then have "(gid, cid) \<in> set (map primary_key db)"
    by (force simp: primary_key_def)
  then obtain r' where r': "get_temporary_voice_channel_by_id db gid cid = Some r'"
    using get_by_id_None_iff [of db gid cid] by fastforce
  from get_by_id_SomeD [OF r'] have "r' \<in> set db" "primary_key r' = primary_key r"
    using h by (simp_all add: primary_key_def)
  moreover from h have "inj_on primary_key (set db)"
    by (simp add: store_inv_def distinct_map)
  ultimately have "r' = r"
    using h by (auto dest: inj_onD)
  with r' show "get_temporary_voice_channel_by_id db gid cid = Some r"
    by simp
qed

theorem get_by_id_exact_witness:
  "(2, 200) \<notin> set (map primary_key
      [\<lparr>guild_id = 1, voice_channel_id = 100, owner_id = 42, owner_left_time = None\<rparr>]) \<and>
   perform_all [] [(0, GetOrCreate 1 100 42), (3, Delete 2 200)]
     = Inr [\<lparr>guild_id = 1, voice_channel_id = 100, owner_id = 42, owner_left_time = None\<rparr>] \<and>
   (\<forall>now oid. (now, GetOrCreate 2 200 oid) \<notin> set [(0, GetOrCreate 1 100 42), (3, Delete 2 200)]) \<and>
   get_temporary_voice_channel_by_id
     [\<lparr>guild_id = 1, voice_channel_id = 100, owner_id = 42, owner_left_time = None\<rparr>] 2 200 = None \<and>
   store_inv [\<lparr>guild_id = 1, voice_channel_id = 100, owner_id = 42, owner_left_time = None\<rparr>] \<and>
   \<lparr>guild_id = 1, voice_channel_id = 100, owner_id = 42, owner_left_time = None\<rparr>
     \<in> set [\<lparr>guild_id = 1, voice_channel_id = 100, owner_id = 42, owner_left_time = None\<rparr>] \<and>
   get_temporary_voice_channel_by_id
     [\<lparr>guild_id = 1, voice_channel_id = 100, owner_id = 42, owner_left_time = None\<rparr>] 1 100
     = Some \<lparr>guild_id = 1, voice_channel_id = 100, owner_id = 42, owner_left_time = None\<rparr>"
  using get_by_id_exact
      [of 2 200 "[\<lparr>guild_id = 1, voice_channel_id = 100, owner_id = 42, owner_left_time = None\<rparr>]"
          "[(0, GetOrCreate 1 100 42), (3, Delete 2 200)]"
          "\<lparr>guild_id = 1, voice_channel_id = 100, owner_id = 42, owner_left_time = None\<rparr>"]
    get_by_id_exact
      [of 1 100 "[\<lparr>guild_id = 1, voice_channel_id = 100, owner_id = 42, owner_left_time = None\<rparr>]"
          "[(0, GetOrCreate 1 100 42), (3, Delete 2 200)]"
          "\<lparr>guild_id = 1, voice_channel_id = 100, owner_id = 42, owner_left_time = None\<rparr>"]
  by (simp add: eval_defs)

text \<open>
  C9. \<^verbatim>\<open>get_temporary_voice_channel_by_owner_id\<close> answers nothing when no row of
  the table has the given owner; otherwise it answers a row of the table with
  that owner.
\<close>

theorem get_by_owner_id_result:
  "((\<forall>r\<in>set db. owner_id r \<noteq> user_id) \<longrightarrow>
      get_temporary_voice_channel_by_owner_id db user_id = None) \<and>
   ((\<exists>r\<in>set db. owner_id r = user_id) \<longrightarrow>
      (\<exists>r. get_temporary_voice_channel_by_owner_id db user_id = Some r \<and>
           r \<in> set db \<and> owner_id r = user_id))"
proof (intro conjI impI)
  assume "\<forall>r\<in>set db. owner_id r \<noteq> user_id"
  then show "get_temporary_voice_channel_by_owner_id db user_id = None"
    by (simp add: get_temporary_voice_channel_by_owner_id_def find_one_def find_None_iff)
next
  assume "\<exists>r\<in>set db. owner_id r = user_id"
  then have "find (\<lambda>r. owner_id r = user_id) db \<noteq> None"
    by (auto simp: find_None_iff)
  then obtain r where r: "find (\<lambda>r. owner_id r = user_id) db = Some r"
    by blast
  then have "r \<in> set db \<and> owner_id r = user_id"
    by (auto simp: find_Some_iff)
  with r show "\<exists>r. get_temporary_voice_channel_by_owner_id db user_id = Some r \<and>
           r \<in> set db \<and> owner_id r = user_id"
    by (simp add: get_temporary_voice_channel_by_owner_id_def find_one_def)
qed

theorem get_by_owner_id_result_witness:
  "owner_id \<lparr>guild_id = 1, voice_channel_id = 100, owner_id = 42, owner_left_time = None\<rparr> \<noteq> 7 \<and>
   get_temporary_voice_channel_by_owner_id
     [\<lparr>guild_id = 1, voice_channel_id = 100, owner_id = 42, owner_left_time = None\<rparr>] 7 = None \<and>
   \<lparr>guild_id = 1, voice_channel_id = 101, owner_id = 42, owner_left_time = None\<rparr>
     \<in> set [\<lparr>guild_id = 1, voice_channel_id = 100, owner_id = 42, owner_left_time = None\<rparr>,
             \<lparr>guild_id = 1, voice_channel_id = 101, owner_id = 42, owner_left_time = None\<rparr>] \<and>
   owner_id \<lparr>guild_id = 1, voice_channel_id = 101, owner_id = 42, owner_left_time = None\<rparr> = 42 \<and>
   get_temporary_voice_channel_by_owner_id
     [\<lparr>guild_id = 1, voice_channel_id = 100, owner_id = 42, owner_left_time = None\<rparr>,
      \<lparr>guild_id = 1, voice_channel_id = 101, owner_id = 42, owner_left_time = None\<rparr>] 42
     = Some \<lparr>guild_id = 1, voice_channel_id = 100, owner_id = 42, owner_left_time = None\<rparr>"
  using get_by_owner_id_result
      [of "[\<lparr>guild_id = 1, voice_channel_id = 100, owner_id = 42, owner_left_time = None\<rparr>]" 7]
    get_by_owner_id_result
      [of "[\<lparr>guild_id = 1, voice_channel_id = 100, owner_id = 42, owner_left_time = None\<rparr>,
            \<lparr>guild_id = 1, voice_channel_id = 101, owner_id = 42, owner_left_time = None\<rparr>]" 42]
  by (simp add: eval_defs)

text \<open>
  C10. \<^verbatim>\<open>handle_owner_left_time\<close> writes at most \<open>owner_left_time\<close> under the key
  it is given. The table keeps its length; every row keeps its \<open>guild_id\<close>,
  \<open>voice_channel_id\<close> and \<open>owner_id\<close>; a row under another key is left as
  it is. So the lookup under any other key answers what it answered before, and
  the row found under the key keeps its three identifiers.
\<close>

theorem owner_left_frame:
  assumes "handle_owner_left_time db now gid cid owner_left = (res, db')"
  shows "length db' = length db \<and>
         (\<forall>i<length db.
            guild_id (db' ! i) = guild_id (db ! i) \<and>
            voice_channel_id (db' ! i) = voice_channel_id (db ! i) \<and>
            owner_id (db' ! i) = owner_id (db ! i) \<and>
            (primary_key (db ! i) \<noteq> (gid, cid) \<longrightarrow> db' ! i = db ! i)) \<and>
         (\<forall>g c. (g, c) \<noteq> (gid, cid) \<longrightarrow>
            get_temporary_voice_channel_by_id db' g c = get_temporary_voice_channel_by_id db g c) \<and>
         (\<forall>r. get_temporary_voice_channel_by_id db gid cid = Some r \<longrightarrow>
            (\<exists>r'. get_temporary_voice_channel_by_id db' gid cid = Some r' \<and>
                  guild_id r' = guild_id r \<and>
                  voice_channel_id r' = voice_channel_id r \<and>
                  owner_id r' = owner_id r))"
proof -
  from handle_store [of db now gid cid owner_left] assms
  obtain olt where db': "db' = map (set_owner_left_time (gid, cid) olt) db"
    by auto
  have rows: "\<forall>i<length db.
            guild_id (db' ! i) = guild_id (db ! i) \<and>
            voice_channel_id (db' ! i) = voice_channel_id (db ! i) \<and>
            owner_id (db' ! i) = owner_id (db ! i) \<and>
            (primary_key (db ! i) \<noteq> (gid, cid) \<longrightarrow> db' ! i = db ! i)"
    by (simp add: db' set_owner_left_time_fields)
  have others: "\<forall>g c. (g, c) \<noteq> (gid, cid) \<longrightarrow>
      get_temporary_voice_channel_by_id db' g c = get_temporary_voice_channel_by_id db g c"
    by (simp add: db' get_by_id_set_owner_left_time_other)
  have same: "\<forall>r. get_temporary_voice_channel_by_id db gid cid = Some r \<longrightarrow>
            (\<exists>r'. get_temporary_voice_channel_by_id db' gid cid = Some r' \<and>
                  guild_id r' = guild_id r \<and>
                  voice_channel_id r' = voice_channel_id r \<and>
                  owner_id r' = owner_id r)"
    by (simp add: db' get_by_id_set_owner_left_time set_owner_left_time_fields)
  from rows others same show ?thesis
    by (simp add: db')
qed

theorem owner_left_frame_witness:
  "handle_owner_left_time
     [\<lparr>guild_id = 1, voice_channel_id = 100, owner_id = 42, owner_left_time = None\<rparr>,
      \<lparr>guild_id = 1, voice_channel_id = 101, owner_id = 7, owner_left_time = Some 5\<rparr>]
     1000 1 100 True
     = (Some \<lparr>guild_id = 1, voice_channel_id = 100, owner_id = 42,
              owner_left_time = Some 300001000\<rparr>,
        [\<lparr>guild_id = 1, voice_channel_id = 100, owner_id = 42, owner_left_time = Some 300001000\<rparr>,
         \<lparr>guild_id = 1, voice_channel_id = 101, owner_id = 7, owner_left_time = Some 5\<rparr>]) \<and>
   (1::nat) < length
     [\<lparr>guild_id = 1, voice_channel_id = 100, owner_id = 42, owner_left_time = None\<rparr>,
      \<lparr>guild_id = 1, voice_channel_id = 101, owner_id = 7, owner_left_time = Some 5\<rparr>] \<and>
   primary_key \<lparr>guild_id = 1, voice_channel_id = 101, owner_id = 7, owner_left_time = Some 5\<rparr>
     \<noteq> (1, 100) \<and>
   (1, 101) \<noteq> (1::int, 100::int) \<and>
   get_temporary_voice_channel_by_id
     [\<lparr>guild_id = 1, voice_channel_id = 100, owner_id = 42, owner_left_time = Some 300001000\<rparr>,
      \<lparr>guild_id = 1, voice_channel_id = 101, owner_id = 7, owner_left_time = Some 5\<rparr>] 1 101
     = get_temporary_voice_channel_by_id
     [\<lparr>guild_id = 1, voice_channel_id = 100, owner_id = 42, owner_left_time = None\<rparr>,
      \<lparr>guild_id = 1, voice_channel_id = 101, owner_id = 7, owner_left_time = Some 5\<rparr>] 1 101 \<and>
   get_temporary_voice_channel_by_id
     [\<lparr>guild_id = 1, voice_channel_id = 100, owner_id = 42, owner_left_time = None\<rparr>,
      \<lparr>guild_id = 1, voice_channel_id = 101, owner_id = 7, owner_left_time = Some 5\<rparr>] 1 100
     = Some \<lparr>guild_id = 1, voice_channel_id = 100, owner_id = 42, owner_left_time = None\<rparr>"
  using owner_left_frame
      [of "[\<lparr>guild_id = 1, voice_channel_id = 100, owner_id = 42, owner_left_time = None\<rparr>,
            \<lparr>guild_id = 1, voice_channel_id = 101, owner_id = 7, owner_left_time = Some 5\<rparr>]"
          1000 1 100 True
          "Some \<lparr>guild_id = 1, voice_channel_id = 100, owner_id = 42,
              owner_left_time = Some 300001000\<rparr>"
          "[\<lparr>guild_id = 1, voice_channel_id = 100, owner_id = 42, owner_left_time = Some 300001000\<rparr>,
            \<lparr>guild_id = 1, voice_channel_id = 101, owner_id = 7, owner_left_time = Some 5\<rparr>]"]
  by (simp add: eval_defs)

end
